theory Spec2Isabelle
  imports Complex_Main
begin

section \<open>Python values used by the converter\<close>

text \<open>
  A Python \<open>float\<close> is a binary64 value: a finite number, one of the two zeros, an
  infinity or a NaN. A finite value is carried by the rational it denotes exactly
  (\<open>Finite 0\<close> is \<open>+0.0\<close>, \<open>NegZero\<close> is \<open>-0.0\<close>).
\<close>

datatype pyfloat = Finite rat | NegZero | PosInf | NegInf | NaN

text \<open>What \<open>json.load\<close> and \<open>Response.json()\<close> return; a \<open>dict\<close> is an association list.\<close>

datatype json =
    JNull
  | JBool bool
  | JInt int
  | JFloat pyfloat
  | JStr string
  | JList "json list"
  | JObject "(string \<times> json) list"

text \<open>
  The exceptions that the code can meet. \<open>ValueError\<close> carries its message, which the
  conversion shows to the user.
\<close>

datatype exn =
    ValueError string
  | TypeError
  | KeyError
  | AttributeError
  | ZeroDivisionError
  | OverflowError
  | OSError
  | RequestException
  | HTTPError
  | JSONDecodeError

text \<open>
  \<open>isinstance\<close> for the two classes that \<open>converter_moeda\<close> handles apart. The error
  that \<open>Response.json()\<close> raises derives from both \<open>RequestException\<close> and \<open>ValueError\<close>;
  \<open>HTTPError\<close> derives from \<open>RequestException\<close>.
\<close>

fun is_ValueError :: "exn \<Rightarrow> bool" where
  "is_ValueError (ValueError m) = True"
| "is_ValueError JSONDecodeError = True"
| "is_ValueError e = False"

fun is_RequestException :: "exn \<Rightarrow> bool" where
  "is_RequestException RequestException = True"
| "is_RequestException HTTPError = True"
| "is_RequestException JSONDecodeError = True"
| "is_RequestException e = False"

text \<open>
  Python's float arithmetic rounds, so the operations that round are parameters of
  the model; every theorem below that is stated for an arbitrary \<open>F\<close> holds whatever they
  compute.
  \<^item> \<open>float_of_str s\<close> is \<open>float(s)\<close> on a string: \<open>Inl m\<close> when it raises
    \<open>ValueError(m)\<close>;
  \<^item> \<open>float_of_int i\<close> is \<open>float(i)\<close> on an integer: \<open>None\<close> when it raises
    \<open>OverflowError\<close>;
  \<^item> \<open>float_mul x y\<close> is \<open>x * y\<close>;
  \<^item> \<open>float_recip x\<close> is \<open>1 / x\<close> for a nonzero \<open>x\<close>.
\<close>

record float_ops =
  float_of_str :: "string \<Rightarrow> string + pyfloat"
  float_of_int :: "int \<Rightarrow> pyfloat option"
  float_mul :: "pyfloat \<Rightarrow> pyfloat \<Rightarrow> pyfloat"
  float_recip :: "pyfloat \<Rightarrow> pyfloat"

text \<open>\<open>x <= 0\<close> and \<open>x == 0\<close> on a float; every comparison with a NaN is false.\<close>

fun float_le_zero :: "pyfloat \<Rightarrow> bool" where
  "float_le_zero (Finite q) = (q \<le> 0)"
| "float_le_zero NegZero = True"
| "float_le_zero PosInf = False"
| "float_le_zero NegInf = True"
| "float_le_zero NaN = False"

fun float_is_zero :: "pyfloat \<Rightarrow> bool" where
  "float_is_zero (Finite q) = (q = 0)"
| "float_is_zero NegZero = True"
| "float_is_zero x = False"

text \<open>Sequencing of computations that may raise.\<close>

definition bind_exn :: "exn + 'a \<Rightarrow> ('a \<Rightarrow> exn + 'b) \<Rightarrow> exn + 'b" where
  "bind_exn r f = (case r of Inl e \<Rightarrow> Inl e | Inr x \<Rightarrow> f x)"

text \<open>\<open>sub in s\<close> on two strings.\<close>

fun is_substring :: "string \<Rightarrow> string \<Rightarrow> bool" where
  "is_substring sub [] = (sub = [])"
| "is_substring sub (c # cs) = (take (length sub) (c # cs) = sub \<or> is_substring sub cs)"

text \<open>
  \<open>key in dados\<close> for a string \<open>key\<close>: membership of the key in a dict, of the string in a
  list, the substring test on a string; any other value is not iterable.
\<close>

fun py_in :: "string \<Rightarrow> json \<Rightarrow> exn + bool" where
  "py_in k (JObject kv) = Inr (k \<in> set (map fst kv))"
| "py_in k (JList xs) = Inr (JStr k \<in> set xs)"
| "py_in k (JStr s) = Inr (is_substring k s)"
| "py_in k v = Inl TypeError"

text \<open>\<open>dados[key]\<close> for a string \<open>key\<close>: only a dict can be indexed by a string.\<close>

fun py_getitem :: "json \<Rightarrow> string \<Rightarrow> exn + json" where
  "py_getitem (JObject kv) k = (case map_of kv k of None \<Rightarrow> Inl KeyError | Some v \<Rightarrow> Inr v)"
| "py_getitem v k = Inl TypeError"

text \<open>\<open>config.get(key)\<close>: only a dict has the method; a missing key gives \<open>None\<close>.\<close>

fun py_get :: "json \<Rightarrow> string \<Rightarrow> exn + json" where
  "py_get (JObject kv) k = (case map_of kv k of None \<Rightarrow> Inr JNull | Some v \<Rightarrow> Inr v)"
| "py_get v k = Inl AttributeError"

text \<open>The truth value of \<open>if v:\<close>.\<close>

fun py_truthy :: "json \<Rightarrow> bool" where
  "py_truthy JNull = False"
| "py_truthy (JBool b) = b"
| "py_truthy (JInt i) = (i \<noteq> 0)"
| "py_truthy (JFloat x) = (\<not> float_is_zero x)"
| "py_truthy (JStr s) = (s \<noteq> [])"
| "py_truthy (JList xs) = (xs \<noteq> [])"
| "py_truthy (JObject kv) = (kv \<noteq> [])"

text \<open>\<open>float(v)\<close> on a decoded JSON value.\<close>

fun py_float :: "float_ops \<Rightarrow> json \<Rightarrow> exn + pyfloat" where
  "py_float F (JStr s) = (case float_of_str F s of Inl m \<Rightarrow> Inl (ValueError m) | Inr x \<Rightarrow> Inr x)"
| "py_float F (JInt i) = (case float_of_int F i of None \<Rightarrow> Inl OverflowError | Some x \<Rightarrow> Inr x)"
| "py_float F (JFloat x) = Inr x"
| "py_float F (JBool b) = Inr (Finite (if b then 1 else 0))"
| "py_float F v = Inl TypeError"

text \<open>\<open>s.replace(old, new)\<close> where \<open>old\<close> and \<open>new\<close> are single characters.\<close>

definition str_replace :: "char \<Rightarrow> char \<Rightarrow> string \<Rightarrow> string" where
  "str_replace old new s = map (\<lambda>c. if c = old then new else c) s"

section \<open>The number format of the result\<close>

definition digit_char :: "nat \<Rightarrow> char" where
  "digit_char d = ''0123456789'' ! (d mod 10)"

fun digits10 :: "nat \<Rightarrow> string" where
  "digits10 n = (if n < 10 then [digit_char n] else digits10 (n div 10) @ [digit_char (n mod 10)])"

declare digits10.simps [simp del]

text \<open>
  Grouping by three from the right, on the reversed digits: a separator goes after
  every third digit that has another digit behind it.
\<close>

fun group3_rev :: "char \<Rightarrow> string \<Rightarrow> string" where
  "group3_rev sep (a # b # c # d # ds) = a # b # c # sep # group3_rev sep (d # ds)"
| "group3_rev sep ds = ds"

definition group3 :: "char \<Rightarrow> string \<Rightarrow> string" where
  "group3 sep ds = rev (group3_rev sep (rev ds))"

text \<open>Rounding of a non-negative rational to the nearest integer, ties to even.\<close>

definition round_half_even :: "rat \<Rightarrow> nat" where
  "round_half_even q =
     (let f = \<lfloor>q\<rfloor>; d = q - of_int f
      in nat (if d < 1 / 2 then f else if 1 / 2 < d then f + 1 else if even f then f else f + 1))"

text \<open>
  The digits of a finite value at two decimals: an optional minus sign, the integer part
  grouped by three with \<open>sep\<close>, the decimal mark \<open>point\<close>, two digits.
\<close>

definition two_decimals :: "char \<Rightarrow> char \<Rightarrow> rat \<Rightarrow> string" where
  "two_decimals sep point q =
     (let n = round_half_even (\<bar>q\<bar> * 100)
      in (if q < 0 then ''-'' else []) @ group3 sep (digits10 (n div 100)) @
         [point, digit_char (n mod 100 div 10), digit_char (n mod 10)])"

text \<open>
  \<open>f"{resultado:,.2f}"\<close>: the exact value of the float rounded to two decimals, comma
  between the thousands, period before the decimals; the non-finite values print as
  words.
\<close>

fun format_comma_2f :: "pyfloat \<Rightarrow> string" where
  "format_comma_2f (Finite q) = two_decimals (CHR '','') (CHR ''.'') q"
| "format_comma_2f NegZero = ''-0.00''"
| "format_comma_2f PosInf = ''inf''"
| "format_comma_2f NegInf = ''-inf''"
| "format_comma_2f NaN = ''nan''"

text \<open>
  \<open>texto_resultado.replace(",", "_").replace(".", ",").replace("_", ".")\<close>
\<close>

definition inverte_separadores :: "string \<Rightarrow> string" where
  "inverte_separadores s =
     str_replace (CHR ''_'') (CHR ''.'') (str_replace (CHR ''.'') (CHR '','') (str_replace (CHR '','') (CHR ''_'') s))"

section \<open>The window and what it does to the world\<close>

datatype log_level = INFO | WARNING | ERROR | CRITICAL

datatype severity = Warning | Critical

text \<open>
  A message box: \<open>QMessageBox.warning\<close> or \<open>QMessageBox.critical\<close>, its title, its text
  and, where the text ends with \<open>{e}\<close>, the exception whose message is appended.
\<close>

datatype dialog = MessageBox severity string string "exn option"

fun dialog_severity :: "dialog \<Rightarrow> severity" where
  "dialog_severity (MessageBox s title txt e) = s"

text \<open>
  The footer label: its text at start, or the text
  \<open>Fonte: AwesomeAPI | Par Usado: {par_usado} | Ultima Cotacao: {data_cotacao_str}\<close>
  with the two interpolated values.
\<close>

datatype rodape = RodapeInicial | RodapeCotacao string json

text \<open>
  \<open>self\<close>: the widgets that the two methods read and write (a combo box by its current
  index), and the traces of the three effects: the message boxes shown, the level of
  each log record, the URL of each HTTP request, all in order.
\<close>

record conversor_app =
  input_valor :: string
  combo_origem :: nat
  combo_destino :: nat
  lbl_resultado :: string
  lbl_data_cotacao :: rodape
  message_boxes :: "dialog list"
  log_records :: "log_level list"
  http_requests :: "string list"

definition moedas :: "string list" where
  "moedas = [''USD'', ''BRL'', ''EUR'', ''JPY'', ''ARS'', ''CAD'', ''AUD'', ''GBP'', ''CHF'']"

text \<open>The window as \<open>_setup_ui\<close> leaves it.\<close>

definition setup_ui :: conversor_app where
  "setup_ui = \<lparr>input_valor = [], combo_origem = 0, combo_destino = 0,
     lbl_resultado = ''0,00'', lbl_data_cotacao = RodapeInicial,
     message_boxes = [], log_records = [], http_requests = []\<rparr>"

definition currentText :: "nat \<Rightarrow> string" where
  "currentText i = (if i < length moedas then moedas ! i else [])"

fun index_from :: "string \<Rightarrow> string list \<Rightarrow> int \<Rightarrow> int" where
  "index_from s [] i = - 1"
| "index_from s (x # xs) i = (if x = s then i else index_from s xs (i + 1))"

text \<open>\<open>combo.findText(v)\<close>: the index of the text, \<open>-1\<close> when absent; only a string is accepted.\<close>

fun findText :: "json \<Rightarrow> exn + int" where
  "findText (JStr s) = Inr (index_from s moedas 0)"
| "findText v = Inl TypeError"

definition logging :: "log_level \<Rightarrow> conversor_app \<Rightarrow> conversor_app" where
  "logging l st = st\<lparr>log_records := log_records st @ [l]\<rparr>"

definition show_dialog :: "dialog \<Rightarrow> conversor_app \<Rightarrow> conversor_app" where
  "show_dialog d st = st\<lparr>message_boxes := message_boxes st @ [d]\<rparr>"

section \<open>The quotation service\<close>

text \<open>
  What one \<open>requests.get\<close> does: it raises (no connection, timeout), or it returns a
  response with a status code and a body, \<open>None\<close> when \<open>json()\<close> cannot decode it.
  The service is any function of the number of requests made before and of the URL.
\<close>

datatype http_outcome = GetRaises | Response nat "json option"

type_synonym transport = "nat \<Rightarrow> string \<Rightarrow> http_outcome"

definition requests_get :: "transport \<Rightarrow> string \<Rightarrow> conversor_app \<Rightarrow> http_outcome \<times> conversor_app" where
  "requests_get T url st =
     (T (length (http_requests st)) url, st\<lparr>http_requests := http_requests st @ [url]\<rparr>)"

text \<open>\<open>raise_for_status()\<close> raises on 4xx and 5xx; then \<open>json()\<close>.\<close>

definition resposta_json :: "http_outcome \<Rightarrow> exn + json" where
  "resposta_json r =
     (case r of
        GetRaises \<Rightarrow> Inl RequestException
      | Response status body \<Rightarrow>
          if 400 \<le> status \<and> status < 600 then Inl HTTPError
          else (case body of None \<Rightarrow> Inl JSONDecodeError | Some dados \<Rightarrow> Inr dados))"

definition api_url :: "string \<Rightarrow> string \<Rightarrow> string" where
  "api_url origem destino = ''https://economia.awesomeapi.com.br/json/last/'' @ origem @ ''-'' @ destino"

text \<open>A quotation: \<open>(cotacao, data, par_usado)\<close>.\<close>

type_synonym cotacao = "pyfloat \<times> json \<times> string"

text \<open>
  The body of each \<open>if chave in dados:\<close>; \<open>Inr None\<close> when the key is absent and the
  \<open>if\<close> falls through.
\<close>

definition extrair_direta :: "float_ops \<Rightarrow> string \<Rightarrow> json \<Rightarrow> exn + cotacao option" where
  "extrair_direta F chave dados =
     bind_exn (py_in chave dados) (\<lambda>presente.
       if presente then
         bind_exn (py_getitem dados chave) (\<lambda>dados_moeda.
         bind_exn (py_getitem dados_moeda ''bid'') (\<lambda>bid.
         bind_exn (py_float F bid) (\<lambda>cotacao_bid.
         bind_exn (py_getitem dados_moeda ''create_date'') (\<lambda>data_api.
           Inr (Some (cotacao_bid, data_api, chave))))))
       else Inr None)"

definition extrair_inversa :: "float_ops \<Rightarrow> string \<Rightarrow> json \<Rightarrow> exn + cotacao option" where
  "extrair_inversa F chave dados =
     bind_exn (py_in chave dados) (\<lambda>presente.
       if presente then
         bind_exn (py_getitem dados chave) (\<lambda>dados_moeda.
         bind_exn (py_getitem dados_moeda ''bid'') (\<lambda>bid.
         bind_exn (py_float F bid) (\<lambda>x.
         bind_exn (if float_is_zero x then Inl ZeroDivisionError else Inr (float_recip F x)) (\<lambda>cotacao_bid.
         bind_exn (py_getitem dados_moeda ''create_date'') (\<lambda>data_api.
           Inr (Some (cotacao_bid, data_api, chave)))))))
       else Inr None)"

definition msg_nao_encontrado :: "string \<Rightarrow> string \<Rightarrow> string" where
  "msg_nao_encontrado origem destino =
     ''O par de moedas '' @ origem @ ''-'' @ destino @ '' e o par inverso n'' @ [CHR 0xE3] @
     ''o foram encontrados ou a API est'' @ [CHR 0xE1] @ '' indispon'' @ [CHR 0xED] @ ''vel.''"

text \<open>
  \<open>_obter_cotacao\<close>. The inverse request lives in the \<open>except\<close> branch of the direct
  attempt: it runs when that attempt raised, not when its \<open>if\<close> fell through.
\<close>

definition obter_cotacao ::
  "float_ops \<Rightarrow> transport \<Rightarrow> string \<Rightarrow> string \<Rightarrow> conversor_app \<Rightarrow> (exn + cotacao) \<times> conversor_app" where
  "obter_cotacao F T origem destino st =
     (let par_direto_chave = origem @ destino;
          url_direta = api_url origem destino;
          par_inverso_chave = destino @ origem;
          url_inversa = api_url destino origem;
          (resposta, st1) = requests_get T url_direta st
      in case bind_exn (resposta_json resposta) (extrair_direta F par_direto_chave) of
           Inr (Some c) \<Rightarrow> (Inr c, st1)
         | Inr None \<Rightarrow> (Inl (ValueError (msg_nao_encontrado origem destino)), st1)
         | Inl e \<Rightarrow>
             (let (resposta2, st2) = requests_get T url_inversa (logging WARNING st1)
              in case bind_exn (resposta_json resposta2) (extrair_inversa F par_inverso_chave) of
                   Inr (Some c) \<Rightarrow> (Inr c, st2)
                 | Inr None \<Rightarrow> (Inl (ValueError (msg_nao_encontrado origem destino)), st2)
                 | Inl e2 \<Rightarrow> (Inl (ValueError (msg_nao_encontrado origem destino)), st2)))"

section \<open>The conversion\<close>

definition aviso_moedas_iguais :: dialog where
  "aviso_moedas_iguais =
     MessageBox Warning ''Aviso''
       (''As moedas de origem e destino n'' @ [CHR 0xE3] @ ''o podem ser as mesmas.'') None"

definition aviso_valor_vazio :: dialog where
  "aviso_valor_vazio = MessageBox Warning ''Aviso'' ''Por favor, insira um valor.'' None"

definition aviso_valor_nao_positivo :: dialog where
  "aviso_valor_nao_positivo = MessageBox Warning ''Aviso'' ''O valor deve ser maior que zero.'' None"

definition erro_de_api :: "exn \<Rightarrow> dialog" where
  "erro_de_api e =
     MessageBox Critical ''Erro de API''
       (''Valor inv'' @ [CHR 0xE1] @ ''lido ou erro de cota'' @ [CHR 0xE7, CHR 0xE3] @ ''o. Detalhe: '')
       (Some e)"

definition erro_de_conexao :: "exn \<Rightarrow> dialog" where
  "erro_de_conexao e =
     MessageBox Critical (''Erro de Conex'' @ [CHR 0xE3] @ ''o'')
       ''Falha ao conectar na API. Verifique sua internet. Detalhe: '' (Some e)"

definition erro_desconhecido :: "exn \<Rightarrow> dialog" where
  "erro_desconhecido e =
     MessageBox Critical ''Erro Desconhecido'' ''Ocorreu um erro inesperado: '' (Some e)"

text \<open>The \<open>try\<close> block of \<open>converter_moeda\<close>: the exception that leaves it, if any, and the window.\<close>

definition converter_corpo ::
  "float_ops \<Rightarrow> transport \<Rightarrow> string \<Rightarrow> string \<Rightarrow> string \<Rightarrow> conversor_app \<Rightarrow> exn option \<times> conversor_app" where
  "converter_corpo F T moeda_origem moeda_destino valor_texto st =
     (if valor_texto = [] then (None, show_dialog aviso_valor_vazio st)
      else case float_of_str F valor_texto of
             Inl m \<Rightarrow> (Some (ValueError m), st)
           | Inr valor \<Rightarrow>
               if float_le_zero valor then (None, show_dialog aviso_valor_nao_positivo st)
               else (case obter_cotacao F T moeda_origem moeda_destino st of
                       (Inl e, st1) \<Rightarrow> (Some e, st1)
                     | (Inr (cotacao, data_cotacao_str, par_usado), st1) \<Rightarrow>
                         (let resultado = float_mul F valor cotacao;
                              texto_resultado = inverte_separadores (format_comma_2f resultado)
                          in (None,
                              logging INFO
                                (st1\<lparr>lbl_resultado := texto_resultado,
                                     lbl_data_cotacao := RodapeCotacao par_usado data_cotacao_str\<rparr>)))))"

text \<open>The three \<open>except\<close> clauses, in the order of the source.\<close>

definition tratar_excecao :: "exn \<Rightarrow> conversor_app \<Rightarrow> conversor_app" where
  "tratar_excecao e st =
     (if is_ValueError e then show_dialog (erro_de_api e) (logging ERROR st)
      else if is_RequestException e then show_dialog (erro_de_conexao e) (logging ERROR st)
      else show_dialog (erro_desconhecido e) (logging CRITICAL st))"

definition converter_moeda :: "float_ops \<Rightarrow> transport \<Rightarrow> conversor_app \<Rightarrow> conversor_app" where
  "converter_moeda F T st =
     (let moeda_origem = currentText (combo_origem st);
          moeda_destino = currentText (combo_destino st);
          valor_texto = str_replace (CHR '','') (CHR ''.'') (input_valor st);
          st0 = logging INFO st
      in if moeda_origem = moeda_destino then show_dialog aviso_moedas_iguais st0
         else (case converter_corpo F T moeda_origem moeda_destino valor_texto st0 of
                 (None, st1) \<Rightarrow> st1
               | (Some e, st1) \<Rightarrow> tratar_excecao e st1))"

section \<open>The persisted configuration\<close>

text \<open>
  \<open>config.json\<close> when the window starts: absent, or \<open>open\<close> or \<open>json.load\<close> raises on it,
  or it decodes to a value.
\<close>

datatype config_file = Ausente | Ilegivel exn | Conteudo json

text \<open>
  One \<open>if moeda: index = combo.findText(moeda); if index >= 0: combo.setCurrentIndex(index)\<close>,
  as the index the combo box has afterwards.
\<close>

definition selecionar :: "json \<Rightarrow> nat \<Rightarrow> exn + nat" where
  "selecionar moeda atual =
     (if py_truthy moeda then bind_exn (findText moeda) (\<lambda>i. Inr (if 0 \<le> i then nat i else atual))
      else Inr atual)"

text \<open>The \<open>try\<close> block of \<open>carregar_config\<close> after \<open>json.load\<close>.\<close>

definition carregar_corpo :: "json \<Rightarrow> conversor_app \<Rightarrow> exn option \<times> conversor_app" where
  "carregar_corpo config st =
     (case py_get config ''origem'' of
        Inl e \<Rightarrow> (Some e, st)
      | Inr origem \<Rightarrow>
          (case py_get config ''destino'' of
             Inl e \<Rightarrow> (Some e, st)
           | Inr destino \<Rightarrow>
               (case selecionar origem (combo_origem st) of
                  Inl e \<Rightarrow> (Some e, st)
                | Inr index_origem \<Rightarrow>
                    (let st1 = st\<lparr>combo_origem := index_origem\<rparr>
                     in case selecionar destino (combo_destino st1) of
                          Inl e \<Rightarrow> (Some e, st1)
                        | Inr index_destino \<Rightarrow> (None, st1\<lparr>combo_destino := index_destino\<rparr>)))))"

definition carregar_config :: "config_file \<Rightarrow> conversor_app \<Rightarrow> conversor_app" where
  "carregar_config arquivo st =
     (case arquivo of
        Ausente \<Rightarrow> logging WARNING st
      | Ilegivel e \<Rightarrow> logging ERROR st
      | Conteudo config \<Rightarrow>
          (case carregar_corpo config st of
             (None, st1) \<Rightarrow> logging INFO st1
           | (Some e, st1) \<Rightarrow> logging ERROR st1))"

section \<open>Float arithmetic without rounding\<close>

text \<open>
  An instance of the float operations for evaluating examples: it computes exactly, and
  so agrees with binary64 wherever the operands and the result are binary fractions of a
  few bits, as in every example below. Its \<open>float(s)\<close> reads the numerals
  \<open>[-]digits[.digits]\<close> and the words \<open>inf\<close>, \<open>-inf\<close> and \<open>nan\<close>.
\<close>

definition is_digit :: "char \<Rightarrow> bool" where
  "is_digit c = (c \<in> set ''0123456789'')"

definition digits_val :: "string \<Rightarrow> nat" where
  "digits_val ds = foldl (\<lambda>n c. 10 * n + (of_char c - 48)) 0 ds"

definition exato_of_str :: "string \<Rightarrow> string + pyfloat" where
  "exato_of_str s =
     (if s = ''inf'' then Inr PosInf
      else if s = ''-inf'' then Inr NegInf
      else if s = ''nan'' then Inr NaN
      else
        (let neg = (s \<noteq> [] \<and> hd s = CHR ''-'');
             body = (if neg then tl s else s);
             a = takeWhile (\<lambda>c. c \<noteq> CHR ''.'') body;
             r = dropWhile (\<lambda>c. c \<noteq> CHR ''.'') body;
             b = (if r = [] then [] else tl r)
         in if list_all is_digit a \<and> list_all is_digit b \<and> a @ b \<noteq> [] then
              (let q = of_nat (digits_val a) + of_nat (digits_val b) / 10 ^ length b
               in Inr (if neg then (if q = 0 then NegZero else Finite (- q)) else Finite q))
            else Inl (''could not convert string to float: '' @ [CHR 0x27] @ s @ [CHR 0x27])))"

fun float_negative :: "pyfloat \<Rightarrow> bool" where
  "float_negative (Finite q) = (q < 0)"
| "float_negative NegZero = True"
| "float_negative NegInf = True"
| "float_negative x = False"

fun float_is_inf :: "pyfloat \<Rightarrow> bool" where
  "float_is_inf PosInf = True"
| "float_is_inf NegInf = True"
| "float_is_inf x = False"

fun float_value :: "pyfloat \<Rightarrow> rat" where
  "float_value (Finite q) = q"
| "float_value x = 0"

definition exato_mul :: "pyfloat \<Rightarrow> pyfloat \<Rightarrow> pyfloat" where
  "exato_mul x y =
     (if x = NaN \<or> y = NaN then NaN
      else if (float_is_zero x \<and> float_is_inf y) \<or> (float_is_inf x \<and> float_is_zero y) then NaN
      else if float_is_inf x \<or> float_is_inf y then
        (if float_negative x \<noteq> float_negative y then NegInf else PosInf)
      else if float_is_zero x \<or> float_is_zero y then
        (if float_negative x \<noteq> float_negative y then NegZero else Finite 0)
      else Finite (float_value x * float_value y))"

fun exato_recip :: "pyfloat \<Rightarrow> pyfloat" where
  "exato_recip (Finite q) = Finite (1 / q)"
| "exato_recip PosInf = Finite 0"
| "exato_recip NegInf = NegZero"
| "exato_recip x = x"

definition exato :: float_ops where
  "exato = \<lparr>float_of_str = exato_of_str, float_of_int = (\<lambda>i. Some (Finite (of_int i))),
     float_mul = exato_mul, float_recip = exato_recip\<rparr>"

section \<open>Examples of services and windows\<close>

text \<open>The answer of the service to \<open>USD-BRL\<close> in the example of the specification.\<close>

definition cotacao_usdbrl :: json where
  "cotacao_usdbrl =
     JObject [(''USDBRL'', JObject [(''bid'', JStr ''5.00''), (''create_date'', JStr ''2024-01-01 12:00:00'')])]"

definition servico_usdbrl :: transport where
  "servico_usdbrl n url = Response 200 (Some cotacao_usdbrl)"

definition cotacao_brlusd :: json where
  "cotacao_brlusd =
     JObject [(''BRLUSD'', JObject [(''bid'', JStr ''0.25''), (''create_date'', JStr ''2024-01-01 12:00:00'')])]"

text \<open>
  A service that answers \<open>USD-BRL\<close> with status 200 and an object without the pair, and
  every other request with the quotation of \<open>BRLUSD\<close>.
\<close>

definition servico_sem_par_direto :: transport where
  "servico_sem_par_direto n url =
     (if url = api_url ''USD'' ''BRL'' then Response 200 (Some (JObject []))
      else Response 200 (Some cotacao_brlusd))"

text \<open>A service that cannot be reached.\<close>

definition servico_fora_do_ar :: transport where
  "servico_fora_do_ar n url = GetRaises"

text \<open>The fresh window with \<open>USD\<close> and \<open>BRL\<close> selected and a text typed as the amount.\<close>

definition janela :: "string \<Rightarrow> conversor_app" where
  "janela texto = setup_ui\<lparr>input_valor := texto, combo_destino := 1\<rparr>"

section \<open>Conditions named by the claims\<close>

text \<open>\<open>x > 0\<close> on a float: a NaN is not above zero, and not \<open><= 0\<close> either.\<close>

fun float_gt_zero :: "pyfloat \<Rightarrow> bool" where
  "float_gt_zero (Finite q) = (0 < q)"
| "float_gt_zero PosInf = True"
| "float_gt_zero x = False"

text \<open>
  The invalid amounts in the words of claim C4: the text is empty, or it is not a
  number (\<open>float\<close> rejects it), or the number is not strictly positive.
\<close>

definition valor_invalido :: "float_ops \<Rightarrow> string \<Rightarrow> bool" where
  "valor_invalido F entrada =
     (let texto = str_replace (CHR '','') (CHR ''.'') entrada
      in texto = [] \<or> (case float_of_str F texto of Inl m \<Rightarrow> True | Inr valor \<Rightarrow> \<not> float_gt_zero valor))"

text \<open>The message box that answers each kind of invalid amount.\<close>

definition dialogo_valor_invalido :: "float_ops \<Rightarrow> string \<Rightarrow> dialog" where
  "dialogo_valor_invalido F entrada =
     (let texto = str_replace (CHR '','') (CHR ''.'') entrada
      in if texto = [] then aviso_valor_vazio
         else (case float_of_str F texto of
                 Inl m \<Rightarrow> erro_de_api (ValueError m)
               | Inr valor \<Rightarrow> aviso_valor_nao_positivo))"




text \<open>The exchange of comma and period, one character at a time.\<close>

definition troca :: "char \<Rightarrow> char" where
  "troca c = (if c = CHR '','' then CHR ''.'' else if c = CHR ''.'' then CHR '','' else c)"

section \<open>Lemmas on the resolver\<close>

lemma extrair_direta_ok:
  assumes "map_of dados chave = Some (JObject dados_moeda)"
      and "map_of dados_moeda ''bid'' = Some bid"
      and "py_float F bid = Inr cotacao_bid"
      and "map_of dados_moeda ''create_date'' = Some data_api"
  shows "extrair_direta F chave (JObject dados) = Inr (Some (cotacao_bid, data_api, chave))"
proof -
  from assms(1) have "chave \<in> fst ` set dados"
    by (metis domI dom_map_of_conv_image_fst)
  with assms show ?thesis
    by (simp add: extrair_direta_def bind_exn_def)
qed

lemma resposta_json_2xx:
  assumes "200 \<le> status" and "status < 300"
  shows "resposta_json (Response status (Some dados)) = Inr dados"
  using assms by (simp add: resposta_json_def)

text \<open>The resolver touches the log and the list of requests, nothing else.\<close>

lemma obter_cotacao_frame:
  assumes "obter_cotacao F T origem destino st = (r, st1)"
  shows "input_valor st1 = input_valor st \<and> combo_origem st1 = combo_origem st \<and>
         combo_destino st1 = combo_destino st \<and> lbl_resultado st1 = lbl_resultado st \<and>
         lbl_data_cotacao st1 = lbl_data_cotacao st \<and> message_boxes st1 = message_boxes st"
  using assms
  by (auto simp: obter_cotacao_def Let_def requests_get_def logging_def
           split: sum.splits option.splits prod.splits)


text \<open>Three ways in which the direct attempt raises.\<close>

lemma direta_levanta:
  "bind_exn (resposta_json GetRaises) (extrair_direta F chave) = Inl RequestException"
  "400 \<le> status \<Longrightarrow> status < 600 \<Longrightarrow>
     bind_exn (resposta_json (Response status body)) (extrair_direta F chave) = Inl HTTPError"
  "\<not> (400 \<le> status \<and> status < 600) \<Longrightarrow>
     bind_exn (resposta_json (Response status None)) (extrair_direta F chave) = Inl JSONDecodeError"
  by (simp_all add: bind_exn_def resposta_json_def)

text \<open>
  When the direct attempt raises, the inverse pair is requested, and a usable entry
  under the inverse key gives the reciprocal of its bid.
\<close>

lemma obter_cotacao_inversa:
  assumes "bind_exn (resposta_json (T (length (http_requests st)) (api_url origem destino)))
             (extrair_direta F (origem @ destino)) = Inl e"
      and "T (Suc (length (http_requests st))) (api_url destino origem) = Response status (Some (JObject dados))"
      and "200 \<le> status" and "status < 300"
      and "map_of dados (destino @ origem) = Some (JObject dados_moeda)"
      and "map_of dados_moeda ''bid'' = Some bid"
      and "py_float F bid = Inr x"
      and "\<not> float_is_zero x"
      and "map_of dados_moeda ''create_date'' = Some data_api"
  shows "obter_cotacao F T origem destino st =
           (Inr (float_recip F x, data_api, destino @ origem),
            st\<lparr>log_records := log_records st @ [WARNING],
               http_requests := http_requests st @ [api_url origem destino, api_url destino origem]\<rparr>)"
proof -
  have "chave \<in> fst ` set dados" if "map_of dados chave = Some v" for chave v
    using that by (metis domI dom_map_of_conv_image_fst)
  with assms(5-9) have "extrair_inversa F (destino @ origem) (JObject dados) =
      Inr (Some (float_recip F x, data_api, destino @ origem))"
    by (simp add: extrair_inversa_def bind_exn_def)
  then have "bind_exn (resposta_json (Response status (Some (JObject dados))))
          (extrair_inversa F (destino @ origem)) = Inr (Some (float_recip F x, data_api, destino @ origem))"
    using resposta_json_2xx [OF assms(3,4)] by (simp add: bind_exn_def)
  then show ?thesis
    using assms(1,2) by (simp add: obter_cotacao_def Let_def requests_get_def logging_def)
qed

section \<open>Lemmas on the examples\<close>

lemma exato_of_str_5: "exato_of_str ''5.00'' = Inr (Finite 5)"
  by (simp add: exato_of_str_def is_digit_def digits_val_def Let_def)

lemma exato_of_str_025: "exato_of_str ''0.25'' = Inr (Finite (1 / 4))"
  by (simp add: exato_of_str_def is_digit_def digits_val_def Let_def)

lemma exato_of_str_100: "exato_of_str ''100'' = Inr (Finite 100)"
  by (simp add: exato_of_str_def is_digit_def digits_val_def Let_def)

lemma exato_of_str_0: "exato_of_str ''0'' = Inr (Finite 0)"
  by (simp add: exato_of_str_def is_digit_def digits_val_def Let_def)

lemma exato_of_str_2p5: "exato_of_str ''2.5'' = Inr (Finite (5 / 2))"
  by (simp add: exato_of_str_def is_digit_def digits_val_def Let_def)

lemma exato_of_str_abc:
  "exato_of_str ''abc'' = Inl (''could not convert string to float: '' @ [CHR 0x27] @ ''abc'' @ [CHR 0x27])"
  by (simp add: exato_of_str_def is_digit_def digits_val_def Let_def)

lemma exato_of_str_nan: "exato_of_str ''nan'' = Inr NaN"
  by (simp add: exato_of_str_def)

lemma exato_of_str_vazio:
  "exato_of_str [] = Inl (''could not convert string to float: '' @ [CHR 0x27] @ [CHR 0x27])"
  by (simp add: exato_of_str_def is_digit_def digits_val_def Let_def)

text \<open>A float that is not above zero is \<open><= 0\<close>, unless it is a NaN.\<close>

lemma nao_positivo_le_zero:
  assumes "\<not> float_gt_zero valor" and "valor \<noteq> NaN"
  shows "float_le_zero valor"
  using assms by (cases valor) auto

lemma exato_of_str_inf: "exato_of_str ''inf'' = Inr PosInf"
  by (simp add: exato_of_str_def)

lemma currentText_janela:
  "currentText (combo_origem (janela texto)) = ''USD''"
  "currentText (combo_destino (janela texto)) = ''BRL''"
  by (simp_all add: janela_def setup_ui_def currentText_def moedas_def)

lemma input_valor_janela: "input_valor (janela texto) = texto"
  by (simp add: janela_def setup_ui_def)

lemma obter_cotacao_usdbrl:
  "obter_cotacao exato servico_usdbrl ''USD'' ''BRL'' st =
     (Inr (Finite 5, JStr ''2024-01-01 12:00:00'', ''USDBRL''),
      st\<lparr>http_requests := http_requests st @ [api_url ''USD'' ''BRL'']\<rparr>)"
  by (simp add: obter_cotacao_def Let_def requests_get_def servico_usdbrl_def cotacao_usdbrl_def
        resposta_json_def bind_exn_def extrair_direta_def exato_def exato_of_str_5)

lemma obter_cotacao_fora_do_ar:
  "obter_cotacao F servico_fora_do_ar origem destino st =
     (Inl (ValueError (msg_nao_encontrado origem destino)),
      st\<lparr>http_requests := http_requests st @ [api_url origem destino, api_url destino origem],
         log_records := log_records st @ [WARNING]\<rparr>)"
  by (simp add: obter_cotacao_def Let_def requests_get_def servico_fora_do_ar_def
        resposta_json_def bind_exn_def logging_def)

text \<open>A conversion of a valid amount from \<open>USD\<close> to \<open>BRL\<close> against the example service.\<close>

lemma converter_moeda_usdbrl:
  assumes "float_of_str exato (str_replace (CHR '','') (CHR ''.'') texto) = Inr valor"
      and "\<not> float_le_zero valor" and "texto \<noteq> []"
  shows "converter_moeda exato servico_usdbrl (janela texto) =
          logging INFO ((logging INFO (janela texto))
            \<lparr>http_requests := http_requests (logging INFO (janela texto)) @ [api_url ''USD'' ''BRL''],
              lbl_resultado := inverte_separadores (format_comma_2f (float_mul exato valor (Finite 5))),
              lbl_data_cotacao := RodapeCotacao ''USDBRL'' (JStr ''2024-01-01 12:00:00'')\<rparr>)"
  using assms
  by (simp add: converter_moeda_def Let_def currentText_janela input_valor_janela
        converter_corpo_def obter_cotacao_usdbrl str_replace_def)

section \<open>Lemmas on the number format\<close>

lemma inverte_separadores_map:
  assumes "CHR ''_'' \<notin> set s"
  shows "inverte_separadores s = map troca s"
  using assms
  by (induction s) (auto simp: inverte_separadores_def str_replace_def troca_def)

lemma digit_char_is_digit: "is_digit (digit_char d)"
proof -
  have "d mod 10 < length ''0123456789''" by simp
  then have "''0123456789'' ! (d mod 10) \<in> set ''0123456789''"
    by (rule nth_mem)
  then show ?thesis
    by (simp only: is_digit_def digit_char_def)
qed

lemma digits10_digits: "list_all is_digit (digits10 n)"
proof (induction n rule: digits10.induct)
  case (1 n)
  then show ?case
    by (subst digits10.simps) (simp add: digit_char_is_digit)
qed

lemma troca_digit: "is_digit c \<Longrightarrow> troca c = c"
  by (auto simp: is_digit_def troca_def)

lemma map_troca_digits: "list_all is_digit ds \<Longrightarrow> map troca ds = ds"
  by (induction ds) (simp_all add: troca_digit)

lemma map_group3_rev: "map f (group3_rev sep ds) = group3_rev (f sep) (map f ds)"
  by (induction sep ds rule: group3_rev.induct) simp_all

lemma map_group3: "map f (group3 sep ds) = group3 (f sep) (map f ds)"
  by (simp add: group3_def map_group3_rev rev_map [symmetric])

lemma set_group3_rev: "set (group3_rev sep ds) \<subseteq> insert sep (set ds)"
  by (induction sep ds rule: group3_rev.induct) auto

lemma set_group3: "set (group3 sep ds) \<subseteq> insert sep (set ds)"
  using set_group3_rev [of sep "rev ds"] by (simp add: group3_def)

text \<open>Taking the separators out of a grouped number gives its digits back.\<close>

lemma filter_group3_rev:
  assumes "sep \<notin> set ds"
  shows "filter (\<lambda>c. c \<noteq> sep) (group3_rev sep ds) = ds"
  using assms
  by (induction sep ds rule: group3_rev.induct) auto

lemma filter_group3:
  assumes "sep \<notin> set ds"
  shows "filter (\<lambda>c. c \<noteq> sep) (group3 sep ds) = ds"
  using filter_group3_rev [of sep "rev ds"] assms
  by (simp add: group3_def rev_filter [symmetric])

lemma is_digit_not_underscore: "is_digit c \<Longrightarrow> c \<noteq> CHR ''_''"
  by (auto simp: is_digit_def)

lemma two_decimals_no_underscore: "CHR ''_'' \<notin> set (two_decimals (CHR '','') (CHR ''.'') q)"
proof -
  have d: "CHR ''_'' \<notin> set (digits10 n)" for n
    using digits10_digits [of n] is_digit_not_underscore by (auto simp: list_all_iff)
  have g: "CHR ''_'' \<notin> set (group3 (CHR '','') (digits10 n))" for n
    using set_group3 [of "CHR '',''" "digits10 n"] d [of n] by auto
  have c: "digit_char k \<noteq> CHR ''_''" for k
    using digit_char_is_digit [of k] by (rule is_digit_not_underscore)
  show ?thesis
    using g c [symmetric] by (simp add: two_decimals_def Let_def)
qed

lemma troca_two_decimals:
  "map troca (two_decimals (CHR '','') (CHR ''.'') q) = two_decimals (CHR ''.'') (CHR '','') q"
  by (simp add: two_decimals_def Let_def map_group3 map_troca_digits digits10_digits
        troca_digit digit_char_is_digit)
     (simp add: troca_def)

text \<open>
  On a finite value the three replacements turn the format of Python into the
  Brazilian one: period between the thousands, comma before the two decimals.
\<close>

lemma inverte_two_decimals:
  "inverte_separadores (two_decimals (CHR '','') (CHR ''.'') q) = two_decimals (CHR ''.'') (CHR '','') q"
  by (simp add: inverte_separadores_map two_decimals_no_underscore troca_two_decimals)

lemma two_decimals_500: "two_decimals (CHR ''.'') (CHR '','') 500 = ''500,00''"
  by (simp add: two_decimals_def round_half_even_def group3_def digits10.simps digit_char_def Let_def)

lemma two_decimals_12p5: "two_decimals (CHR ''.'') (CHR '','') (25 / 2) = ''12,50''"
  by (simp add: two_decimals_def round_half_even_def group3_def digits10.simps digit_char_def Let_def)

section \<open>Lemmas on the conversion\<close>

lemma converter_corpo_frame:
  assumes "converter_corpo F T origem destino texto st = (Some e, st1)"
  shows "lbl_resultado st1 = lbl_resultado st \<and> lbl_data_cotacao st1 = lbl_data_cotacao st
         \<and> message_boxes st1 = message_boxes st"
  using assms
  by (auto simp: converter_corpo_def Let_def split: if_splits sum.splits prod.splits
           dest: obter_cotacao_frame)

lemma converter_corpo_dialog:
  assumes "converter_corpo F T origem destino texto st = (None, st1)"
      and "message_boxes st1 \<noteq> message_boxes st"
  shows "lbl_resultado st1 = lbl_resultado st \<and> lbl_data_cotacao st1 = lbl_data_cotacao st"
  using assms
  by (auto simp: converter_corpo_def Let_def show_dialog_def logging_def
           split: if_splits sum.splits prod.splits dest: obter_cotacao_frame)

text \<open>A conversion that shows no message box is one that succeeded.\<close>

lemma converter_moeda_sem_dialogo:
  assumes "message_boxes (converter_moeda F T st) = message_boxes st"
  shows "\<exists>valor cotacao data_cotacao par_usado st1.
           currentText (combo_origem st) \<noteq> currentText (combo_destino st)
           \<and> float_of_str F (str_replace (CHR '','') (CHR ''.'') (input_valor st)) = Inr valor
           \<and> \<not> float_le_zero valor
           \<and> obter_cotacao F T (currentText (combo_origem st)) (currentText (combo_destino st))
                (logging INFO st) = (Inr (cotacao, data_cotacao, par_usado), st1)
           \<and> converter_moeda F T st =
               logging INFO (st1\<lparr>lbl_resultado := inverte_separadores (format_comma_2f (float_mul F valor cotacao)),
                                 lbl_data_cotacao := RodapeCotacao par_usado data_cotacao\<rparr>)"
proof -
  let ?o = "currentText (combo_origem st)" and ?d = "currentText (combo_destino st)"
  let ?t = "str_replace (CHR '','') (CHR ''.'') (input_valor st)"
  have dif: "?o \<noteq> ?d"
    using assms by (auto simp: converter_moeda_def Let_def show_dialog_def logging_def)
  have ne: "?t \<noteq> []"
    using assms dif
    by (auto simp: converter_moeda_def Let_def converter_corpo_def show_dialog_def logging_def)
  obtain valor where v: "float_of_str F ?t = Inr valor"
    using assms dif ne
    by (cases "float_of_str F ?t")
       (auto simp: converter_moeda_def Let_def converter_corpo_def tratar_excecao_def
          show_dialog_def logging_def)
  have pos: "\<not> float_le_zero valor"
    using assms dif ne v
    by (auto simp: converter_moeda_def Let_def converter_corpo_def show_dialog_def logging_def)
  obtain r st1 where oc: "obter_cotacao F T ?o ?d (logging INFO st) = (r, st1)"
    by (cases "obter_cotacao F T ?o ?d (logging INFO st)") auto
  have mb: "message_boxes st1 = message_boxes st"
    using obter_cotacao_frame [OF oc] by (simp add: logging_def)
  show ?thesis
  proof (cases r)
    case (Inl e)
    with assms dif ne v pos oc mb show ?thesis
      by (auto simp: converter_moeda_def Let_def converter_corpo_def tratar_excecao_def
            show_dialog_def logging_def split: if_splits)
  next
    case (Inr c)
    obtain cotacao data_cotacao par_usado where c: "c = (cotacao, data_cotacao, par_usado)"
      by (cases c) auto
    with Inr dif ne v pos oc show ?thesis
      by (simp add: converter_moeda_def Let_def converter_corpo_def)
  qed
qed

text \<open>The text of the amount reaches the conversion only through the replacement of its commas.\<close>

lemma obter_cotacao_input_valor:
  "obter_cotacao F T origem destino (st\<lparr>input_valor := a\<rparr>) =
     (case obter_cotacao F T origem destino st of (r, st1) \<Rightarrow> (r, st1\<lparr>input_valor := a\<rparr>))"
  by (simp add: obter_cotacao_def Let_def requests_get_def logging_def
        split: sum.splits option.splits prod.splits)

lemma converter_corpo_input_valor:
  "converter_corpo F T origem destino texto (st\<lparr>input_valor := a\<rparr>) =
     (case converter_corpo F T origem destino texto st of (r, st1) \<Rightarrow> (r, st1\<lparr>input_valor := a\<rparr>))"
  by (simp add: converter_corpo_def obter_cotacao_input_valor Let_def show_dialog_def logging_def
        split: sum.splits option.splits prod.splits)

lemma converter_moeda_input_valor:
  assumes "str_replace (CHR '','') (CHR ''.'') a = str_replace (CHR '','') (CHR ''.'') b"
  shows "converter_moeda F T (st\<lparr>input_valor := a\<rparr>) =
           (converter_moeda F T (st\<lparr>input_valor := b\<rparr>))\<lparr>input_valor := a\<rparr>"
proof -
  let ?o = "currentText (combo_origem st)" and ?d = "currentText (combo_destino st)"
  let ?t = "str_replace (CHR '','') (CHR ''.'') b"
  obtain r st1 where X: "converter_corpo F T ?o ?d ?t (logging INFO st) = (r, st1)"
    by (cases "converter_corpo F T ?o ?d ?t (logging INFO st)") auto
  have l: "logging INFO (st\<lparr>input_valor := x\<rparr>) = (logging INFO st)\<lparr>input_valor := x\<rparr>" for x
    by (simp add: logging_def)
  have A: "converter_corpo F T ?o ?d ?t (logging INFO (st\<lparr>input_valor := x\<rparr>)) =
             (r, st1\<lparr>input_valor := x\<rparr>)" for x
    by (simp add: l converter_corpo_input_valor X)
  have C: "converter_moeda F T (st\<lparr>input_valor := x\<rparr>) =
             (if ?o = ?d then show_dialog aviso_moedas_iguais ((logging INFO st)\<lparr>input_valor := x\<rparr>)
              else case r of None \<Rightarrow> st1\<lparr>input_valor := x\<rparr>
                   | Some e \<Rightarrow> tratar_excecao e (st1\<lparr>input_valor := x\<rparr>))"
    if "str_replace (CHR '','') (CHR ''.'') x = ?t" for x
    using that A [of x] by (simp add: converter_moeda_def Let_def l split: option.splits)
  show ?thesis
    using C [of a] C [of b] assms
    by (simp add: tratar_excecao_def show_dialog_def logging_def split: option.splits)
qed

lemma str_replace_digits:
  assumes "list_all is_digit ds"
  shows "str_replace (CHR '','') (CHR ''.'') ds = ds"
  using assms
  by (induction ds) (auto simp: str_replace_def is_digit_def)

lemma str_replace_Cons:
  "str_replace a b (x # xs) = (if x = a then b else x) # str_replace a b xs"
  by (simp add: str_replace_def)

lemma str_replace_append:
  "str_replace a b (xs @ ys) = str_replace a b xs @ str_replace a b ys"
  by (simp add: str_replace_def)

section \<open>Lemmas on the configuration\<close>



text \<open>A well-formed file selects both currencies.\<close>

lemma carregar_config_ok:
  "carregar_config (Conteudo (JObject [(''origem'', JStr ''EUR''), (''destino'', JStr ''JPY'')])) setup_ui =
     logging INFO (setup_ui\<lparr>combo_origem := 2, combo_destino := 3\<rparr>)"
  by (simp add: carregar_config_def carregar_corpo_def selecionar_def bind_exn_def moedas_def
        setup_ui_def logging_def)

section \<open>The quotation resolver\<close>

text \<open>
  Claim C1 says that a direct attempt that fails for any reason, a missing pair key in
  the answer included, is followed by a request for the inverse pair, whose bid is
  then reciprocated. The code does so when the direct attempt raises (lemma
  \<open>obter_cotacao_inversa\<close>), and not when the answer is a well-formed object without
  the key: the service below answers \<open>USD-BRL\<close> with such an object and would answer
  \<open>BRL-USD\<close> with a usable entry under \<open>BRLUSD\<close>, whose reciprocal is 4; the resolver
  makes the direct request only and raises the error that reports the inverse pair
  as not found.
\<close>

theorem obter_cotacao_sem_par_direto:
  "servico_sem_par_direto 1 (api_url ''BRL'' ''USD'') = Response 200 (Some cotacao_brlusd)
   \<and> extrair_inversa exato ''BRLUSD'' cotacao_brlusd =
       Inr (Some (Finite 4, JStr ''2024-01-01 12:00:00'', ''BRLUSD''))
   \<and> obter_cotacao exato servico_sem_par_direto ''USD'' ''BRL'' setup_ui =
       (Inl (ValueError (msg_nao_encontrado ''USD'' ''BRL'')),
        setup_ui\<lparr>http_requests := [api_url ''USD'' ''BRL'']\<rparr>)"
  by (simp add: servico_sem_par_direto_def api_url_def extrair_inversa_def extrair_direta_def
        cotacao_brlusd_def bind_exn_def exato_def exato_of_str_025 obter_cotacao_def
        requests_get_def resposta_json_def setup_ui_def)

text \<open>
  Claim C2. When the request for the direct pair is answered with a 2xx status and a
  JSON object that has the key \<open>origem + destino\<close>, and the entry under that key has a
  \<open>bid\<close> that \<open>float\<close> accepts and a \<open>create_date\<close>, \<open>_obter_cotacao\<close> returns that
  bid as \<open>float\<close> gave it, the entry's \<open>create_date\<close> and the direct key, and the only
  request it has made is the direct one.
\<close>

theorem obter_cotacao_direta:
  assumes "T (length (http_requests st)) (api_url origem destino) = Response status (Some (JObject dados))"
      and "200 \<le> status" and "status < 300"
      and "map_of dados (origem @ destino) = Some (JObject dados_moeda)"
      and "map_of dados_moeda ''bid'' = Some bid"
      and "py_float F bid = Inr cotacao_bid"
      and "map_of dados_moeda ''create_date'' = Some data_api"
  shows "obter_cotacao F T origem destino st =
           (Inr (cotacao_bid, data_api, origem @ destino),
            st\<lparr>http_requests := http_requests st @ [api_url origem destino]\<rparr>)"
proof -
  have "bind_exn (resposta_json (Response status (Some (JObject dados))))
          (extrair_direta F (origem @ destino)) = Inr (Some (cotacao_bid, data_api, origem @ destino))"
    using resposta_json_2xx [OF assms(2,3)] extrair_direta_ok [OF assms(4-7)]
    by (simp add: bind_exn_def)
  then show ?thesis
    using assms(1) by (simp add: obter_cotacao_def Let_def requests_get_def)
qed

text \<open>The example of the specification: \<open>USD\<close> to \<open>BRL\<close> with the bid \<open>5.00\<close>.\<close>

theorem obter_cotacao_direta_witness:
  "servico_usdbrl (length (http_requests setup_ui)) (api_url ''USD'' ''BRL'') =
     Response 200 (Some (JObject [(''USDBRL'', JObject [(''bid'', JStr ''5.00''), (''create_date'', JStr ''2024-01-01 12:00:00'')])]))
   \<and> py_float exato (JStr ''5.00'') = Inr (Finite 5)
   \<and> obter_cotacao exato servico_usdbrl ''USD'' ''BRL'' setup_ui =
       (Inr (Finite 5, JStr ''2024-01-01 12:00:00'', ''USDBRL''),
        setup_ui\<lparr>http_requests := [api_url ''USD'' ''BRL'']\<rparr>)"
proof -
  have resp: "servico_usdbrl (length (http_requests setup_ui)) (api_url ''USD'' ''BRL'') =
     Response 200 (Some (JObject [(''USDBRL'', JObject [(''bid'', JStr ''5.00''), (''create_date'', JStr ''2024-01-01 12:00:00'')])]))"
    by (simp add: servico_usdbrl_def cotacao_usdbrl_def)
  have bid: "py_float exato (JStr ''5.00'') = Inr (Finite 5)"
    by (simp add: exato_def exato_of_str_5)
  note obter_cotacao_direta [where T = servico_usdbrl and st = setup_ui and origem = "''USD''" and destino = "''BRL''"
      and status = 200 and F = exato and bid = "JStr ''5.00''" and cotacao_bid = "Finite 5"
      and dados = "[(''USDBRL'', JObject [(''bid'', JStr ''5.00''), (''create_date'', JStr ''2024-01-01 12:00:00'')])]"
      and dados_moeda = "[(''bid'', JStr ''5.00''), (''create_date'', JStr ''2024-01-01 12:00:00'')]"
      and data_api = "JStr ''2024-01-01 12:00:00''"]
  with resp bid show ?thesis
    by (simp add: setup_ui_def)
qed



section \<open>The checks before the request\<close>

text \<open>
  Claim C4, as the code has it. Between two different currencies, take an amount
  that is empty, or that \<open>float\<close> rejects, or that \<open>float\<close> reads as a number that is
  not strictly positive and is not a NaN. It gets one message box, no request is made
  and both labels stay. The box is the warning \<open>Por favor, insira um valor.\<close> for the
  empty amount and the warning \<open>O valor deve ser maior que zero.\<close> for the number
  that is not positive; for the amount that \<open>float\<close> rejects it is the critical box
  \<open>Erro de API\<close>, the one that a failed quotation gets too.
\<close>

theorem valor_invalido_sem_pedido:
  assumes "currentText (combo_origem st) \<noteq> currentText (combo_destino st)"
      and "valor_invalido F (input_valor st)"
      and "float_of_str F (str_replace (CHR '','') (CHR ''.'') (input_valor st)) \<noteq> Inr NaN"
  shows "message_boxes (converter_moeda F T st) = message_boxes st @ [dialogo_valor_invalido F (input_valor st)]
         \<and> http_requests (converter_moeda F T st) = http_requests st
         \<and> lbl_resultado (converter_moeda F T st) = lbl_resultado st
         \<and> lbl_data_cotacao (converter_moeda F T st) = lbl_data_cotacao st"
proof (cases "str_replace (CHR '','') (CHR ''.'') (input_valor st) = []")
  case True
  with assms(1) show ?thesis
    by (simp add: converter_moeda_def Let_def converter_corpo_def dialogo_valor_invalido_def
          show_dialog_def logging_def)
next
  case False
  show ?thesis
  proof (cases "float_of_str F (str_replace (CHR '','') (CHR ''.'') (input_valor st))")
    case (Inl m)
    with assms(1) False show ?thesis
      by (simp add: converter_moeda_def Let_def converter_corpo_def tratar_excecao_def
            dialogo_valor_invalido_def show_dialog_def logging_def)
  next
    case (Inr valor)
    with assms(2,3) False have "\<not> float_gt_zero valor" and "valor \<noteq> NaN"
      by (simp_all add: valor_invalido_def Let_def)
    then have "float_le_zero valor"
      by (rule nao_positivo_le_zero)
    with assms(1) False Inr show ?thesis
      by (simp add: converter_moeda_def Let_def converter_corpo_def dialogo_valor_invalido_def
            show_dialog_def logging_def)
  qed
qed

text \<open>The empty amount, the amount \<open>abc\<close> and the amount \<open>0\<close>.\<close>

theorem valor_invalido_sem_pedido_witness:
  "(valor_invalido exato (input_valor (janela [])) \<and>
    float_of_str exato (str_replace (CHR '','') (CHR ''.'') (input_valor (janela []))) \<noteq> Inr NaN \<and>
    message_boxes (converter_moeda exato servico_usdbrl (janela [])) = [aviso_valor_vazio] \<and>
    http_requests (converter_moeda exato servico_usdbrl (janela [])) = [])
   \<and> (valor_invalido exato (input_valor (janela ''abc'')) \<and>
    float_of_str exato (str_replace (CHR '','') (CHR ''.'') (input_valor (janela ''abc''))) \<noteq> Inr NaN \<and>
    message_boxes (converter_moeda exato servico_usdbrl (janela ''abc'')) =
      [erro_de_api (ValueError (''could not convert string to float: '' @ [CHR 0x27] @ ''abc'' @ [CHR 0x27]))] \<and>
    http_requests (converter_moeda exato servico_usdbrl (janela ''abc'')) = [])
   \<and> (valor_invalido exato (input_valor (janela ''0'')) \<and>
    float_of_str exato (str_replace (CHR '','') (CHR ''.'') (input_valor (janela ''0''))) \<noteq> Inr NaN \<and>
    message_boxes (converter_moeda exato servico_usdbrl (janela ''0'')) = [aviso_valor_nao_positivo] \<and>
    http_requests (converter_moeda exato servico_usdbrl (janela ''0'')) = [])"
proof -
  have dif: "currentText (combo_origem (janela texto)) \<noteq> currentText (combo_destino (janela texto))" for texto
    by (simp add: currentText_janela)
  have v1: "valor_invalido exato (input_valor (janela []))"
    by (simp add: input_valor_janela valor_invalido_def str_replace_def)
  have n1: "float_of_str exato (str_replace (CHR '','') (CHR ''.'') (input_valor (janela []))) \<noteq> Inr NaN"
    by (simp add: input_valor_janela str_replace_def exato_def exato_of_str_vazio)
  have v2: "valor_invalido exato (input_valor (janela ''abc''))"
    by (simp add: input_valor_janela valor_invalido_def str_replace_def exato_def exato_of_str_abc)
  have n2: "float_of_str exato (str_replace (CHR '','') (CHR ''.'') (input_valor (janela ''abc''))) \<noteq> Inr NaN"
    by (simp add: input_valor_janela str_replace_def exato_def exato_of_str_abc)
  have v3: "valor_invalido exato (input_valor (janela ''0''))"
    by (simp add: input_valor_janela valor_invalido_def str_replace_def exato_def exato_of_str_0)
  have n3: "float_of_str exato (str_replace (CHR '','') (CHR ''.'') (input_valor (janela ''0''))) \<noteq> Inr NaN"
    by (simp add: input_valor_janela str_replace_def exato_def exato_of_str_0)
  have st0: "message_boxes (janela texto) = [] \<and> http_requests (janela texto) = []" for texto
    by (simp add: janela_def setup_ui_def)
  show ?thesis
    using valor_invalido_sem_pedido [OF dif v1 n1, of servico_usdbrl]
      valor_invalido_sem_pedido [OF dif v2 n2, of servico_usdbrl]
      valor_invalido_sem_pedido [OF dif v3 n3, of servico_usdbrl] v1 v2 v3 n1 n2 n3 st0
    by (simp add: input_valor_janela dialogo_valor_invalido_def str_replace_def exato_def
          exato_of_str_abc exato_of_str_0)
qed

text \<open>
  Claim C4 as it is written asks, for every invalid amount, for a warning and for no
  request. It fails on both counts. The amount \<open>abc\<close> is not a number, and the one
  box that the conversion shows for it is critical. The amount \<open>nan\<close> is a float that
  is not strictly positive, but it is not \<open><= 0\<close> either: the code lets it through,
  asks the service for \<open>USD-BRL\<close> and shows no box.
\<close>

theorem valor_invalido_erro_critico_ou_pedido:
  "currentText (combo_origem (janela ''abc'')) \<noteq> currentText (combo_destino (janela ''abc''))
   \<and> valor_invalido exato (input_valor (janela ''abc''))
   \<and> map dialog_severity (message_boxes (converter_moeda exato servico_usdbrl (janela ''abc''))) = [Critical]
   \<and> currentText (combo_origem (janela ''nan'')) \<noteq> currentText (combo_destino (janela ''nan''))
   \<and> valor_invalido exato (input_valor (janela ''nan''))
   \<and> http_requests (converter_moeda exato servico_usdbrl (janela ''nan'')) = [api_url ''USD'' ''BRL'']
   \<and> message_boxes (converter_moeda exato servico_usdbrl (janela ''nan'')) = []"
proof -
  have abc: "map dialog_severity (message_boxes (converter_moeda exato servico_usdbrl (janela ''abc''))) = [Critical]"
    by (simp add: currentText_janela input_valor_janela str_replace_def exato_def
          exato_of_str_abc converter_moeda_def converter_corpo_def tratar_excecao_def show_dialog_def
          logging_def erro_de_api_def)
       (simp add: janela_def setup_ui_def)
  have v1: "valor_invalido exato (input_valor (janela ''abc''))"
    by (simp add: input_valor_janela valor_invalido_def str_replace_def exato_def exato_of_str_abc)
  have p: "float_of_str exato (str_replace (CHR '','') (CHR ''.'') ''nan'') = Inr NaN"
    by (simp add: exato_def exato_of_str_nan str_replace_def)
  have v2: "valor_invalido exato (input_valor (janela ''nan''))"
    using p by (simp add: input_valor_janela valor_invalido_def)
  from converter_moeda_usdbrl [OF p]
  have nan: "http_requests (converter_moeda exato servico_usdbrl (janela ''nan'')) = [api_url ''USD'' ''BRL'']
     \<and> message_boxes (converter_moeda exato servico_usdbrl (janela ''nan'')) = []"
    by (simp add: logging_def janela_def setup_ui_def)
  from abc v1 v2 nan show ?thesis
    by (simp add: currentText_janela)
qed

text \<open>
  Claim C5. When the origin and the destination are the same currency, the conversion
  logs its start, shows the warning that the two currencies cannot be the same, and
  does nothing else: no request is made.
\<close>

theorem moedas_iguais_aviso:
  assumes "currentText (combo_origem st) = currentText (combo_destino st)"
  shows "converter_moeda F T st = show_dialog aviso_moedas_iguais (logging INFO st)
         \<and> dialog_severity aviso_moedas_iguais = Warning
         \<and> http_requests (converter_moeda F T st) = http_requests st"
  using assms
  by (simp add: converter_moeda_def Let_def show_dialog_def logging_def aviso_moedas_iguais_def)

text \<open>The fresh window has \<open>USD\<close> in both combo boxes.\<close>

theorem moedas_iguais_aviso_witness:
  "currentText (combo_origem setup_ui) = currentText (combo_destino setup_ui)
   \<and> message_boxes (converter_moeda exato servico_usdbrl setup_ui) = [aviso_moedas_iguais]
   \<and> http_requests (converter_moeda exato servico_usdbrl setup_ui) = []"
  using moedas_iguais_aviso [of setup_ui exato servico_usdbrl]
  by (simp add: setup_ui_def show_dialog_def logging_def)

section \<open>The result of a conversion\<close>

text \<open>
  Claim C6, as the code has it. In a conversion that succeeds, the value shown is the
  product \<open>valor * cotacao\<close> of the amount and the rate, formatted by \<open>,.2f\<close> with comma
  and period exchanged, the footer shows the pair used and the date of the quotation,
  and no message box appears. Whenever the product is a finite number, the text is a
  minus sign if the number is negative, the integer part in groups of three separated
  by periods, a comma and exactly two digits.
\<close>

theorem conversao_formatada:
  assumes "currentText (combo_origem st) \<noteq> currentText (combo_destino st)"
      and "str_replace (CHR '','') (CHR ''.'') (input_valor st) \<noteq> []"
      and "float_of_str F (str_replace (CHR '','') (CHR ''.'') (input_valor st)) = Inr valor"
      and "\<not> float_le_zero valor"
      and "obter_cotacao F T (currentText (combo_origem st)) (currentText (combo_destino st))
             (logging INFO st) = (Inr (cotacao, data_cotacao, par_usado), st1)"
  shows "lbl_resultado (converter_moeda F T st) =
           inverte_separadores (format_comma_2f (float_mul F valor cotacao))
         \<and> (\<forall>q. float_mul F valor cotacao = Finite q \<longrightarrow>
               lbl_resultado (converter_moeda F T st) = two_decimals (CHR ''.'') (CHR '','') q)
         \<and> lbl_data_cotacao (converter_moeda F T st) = RodapeCotacao par_usado data_cotacao
         \<and> message_boxes (converter_moeda F T st) = message_boxes st"
proof -
  have conv: "converter_moeda F T st =
      logging INFO (st1\<lparr>lbl_resultado := inverte_separadores (format_comma_2f (float_mul F valor cotacao)),
                        lbl_data_cotacao := RodapeCotacao par_usado data_cotacao\<rparr>)"
    using assms by (simp add: converter_moeda_def Let_def converter_corpo_def)
  have "message_boxes st1 = message_boxes st"
    using obter_cotacao_frame [OF assms(5)] by (simp add: logging_def)
  with conv show ?thesis
    by (auto simp: logging_def inverte_two_decimals)
qed

text \<open>
  The example of the specification: the amount 100 from \<open>USD\<close> to \<open>BRL\<close> at the bid
  \<open>5.00\<close> gives 500, shown as \<open>500,00\<close>, with the pair \<open>USDBRL\<close>.
\<close>

theorem conversao_formatada_witness:
  "currentText (combo_origem (janela ''100'')) \<noteq> currentText (combo_destino (janela ''100''))
   \<and> float_of_str exato (str_replace (CHR '','') (CHR ''.'') (input_valor (janela ''100''))) = Inr (Finite 100)
   \<and> fst (obter_cotacao exato servico_usdbrl ''USD'' ''BRL'' (logging INFO (janela ''100''))) =
        Inr (Finite 5, JStr ''2024-01-01 12:00:00'', ''USDBRL'')
   \<and> float_mul exato (Finite 100) (Finite 5) = Finite 500
   \<and> lbl_resultado (converter_moeda exato servico_usdbrl (janela ''100'')) = ''500,00''
   \<and> lbl_data_cotacao (converter_moeda exato servico_usdbrl (janela ''100'')) =
        RodapeCotacao ''USDBRL'' (JStr ''2024-01-01 12:00:00'')"
proof -
  have tx: "str_replace (CHR '','') (CHR ''.'') (input_valor (janela ''100'')) = ''100''"
    by (simp add: input_valor_janela str_replace_def)
  have h1: "currentText (combo_origem (janela ''100'')) \<noteq> currentText (combo_destino (janela ''100''))"
    by (simp add: currentText_janela)
  have h3: "float_of_str exato (str_replace (CHR '','') (CHR ''.'') (input_valor (janela ''100''))) = Inr (Finite 100)"
    by (simp add: tx exato_def exato_of_str_100)
  have h4: "\<not> float_le_zero (Finite 100)"
    by simp
  have h5: "obter_cotacao exato servico_usdbrl (currentText (combo_origem (janela ''100'')))
              (currentText (combo_destino (janela ''100''))) (logging INFO (janela ''100'')) =
            (Inr (Finite 5, JStr ''2024-01-01 12:00:00'', ''USDBRL''),
             (logging INFO (janela ''100''))\<lparr>http_requests := http_requests (logging INFO (janela ''100'')) @ [api_url ''USD'' ''BRL'']\<rparr>)"
    by (simp add: currentText_janela obter_cotacao_usdbrl)
  have m: "float_mul exato (Finite 100) (Finite 5) = Finite 500"
    by (simp add: exato_def exato_mul_def)
  from conversao_formatada [OF h1 _ h3 h4 h5] tx m h1 h3 show ?thesis
    by (simp add: inverte_two_decimals two_decimals_500 obter_cotacao_usdbrl)
qed

text \<open>
  Claim C6 as it is written promises two decimals for every conversion that succeeds.
  The amount \<open>inf\<close> is a float above zero for the code; its conversion succeeds, no
  box is shown, and the result label reads \<open>inf\<close>.
\<close>

theorem conversao_infinita:
  "message_boxes (converter_moeda exato servico_usdbrl (janela ''inf'')) = []
   \<and> lbl_resultado (converter_moeda exato servico_usdbrl (janela ''inf'')) = ''inf''"
proof -
  have p: "float_of_str exato (str_replace (CHR '','') (CHR ''.'') ''inf'') = Inr PosInf"
    by (simp add: exato_def exato_of_str_inf str_replace_def)
  have m: "float_mul exato PosInf (Finite 5) = PosInf"
    by (simp add: exato_def exato_mul_def)
  have i: "inverte_separadores ''inf'' = ''inf''"
    by (simp add: inverte_separadores_def str_replace_def)
  from converter_moeda_usdbrl [OF p] show ?thesis
    by (simp add: m i logging_def janela_def setup_ui_def)
qed

text \<open>
  Claim C9. A conversion that fails shows a message box, and the one that succeeds
  shows none (lemma \<open>converter_moeda_sem_dialogo\<close>). Whenever \<open>converter_moeda\<close> has
  shown a message box, the result label and the footer label hold what they held
  before.
\<close>

theorem falha_preserva_rotulos:
  assumes "message_boxes (converter_moeda F T st) \<noteq> message_boxes st"
  shows "lbl_resultado (converter_moeda F T st) = lbl_resultado st
         \<and> lbl_data_cotacao (converter_moeda F T st) = lbl_data_cotacao st"
proof (cases "currentText (combo_origem st) = currentText (combo_destino st)")
  case True
  then show ?thesis
    by (simp add: converter_moeda_def Let_def show_dialog_def logging_def)
next
  case False
  obtain r st1 where corpo:
    "converter_corpo F T (currentText (combo_origem st)) (currentText (combo_destino st))
       (str_replace (CHR '','') (CHR ''.'') (input_valor st)) (logging INFO st) = (r, st1)"
    by (cases "converter_corpo F T (currentText (combo_origem st)) (currentText (combo_destino st))
       (str_replace (CHR '','') (CHR ''.'') (input_valor st)) (logging INFO st)") auto
  show ?thesis
  proof (cases r)
    case None
    with False corpo have eq: "converter_moeda F T st = st1"
      by (simp add: converter_moeda_def Let_def)
    with assms have "message_boxes st1 \<noteq> message_boxes (logging INFO st)"
      by (simp add: logging_def)
    from converter_corpo_dialog [OF corpo [unfolded None] this] eq show ?thesis
      by (simp add: logging_def)
  next
    case (Some e)
    with False corpo have eq: "converter_moeda F T st = tratar_excecao e st1"
      by (simp add: converter_moeda_def Let_def)
    from converter_corpo_frame [OF corpo [unfolded Some]] eq show ?thesis
      by (simp add: tratar_excecao_def show_dialog_def logging_def)
  qed
qed

text \<open>The service cannot be reached: a box is shown and the labels keep their first texts.\<close>

theorem falha_preserva_rotulos_witness:
  "message_boxes (converter_moeda exato servico_fora_do_ar (janela ''100'')) \<noteq> message_boxes (janela ''100'')
   \<and> lbl_resultado (converter_moeda exato servico_fora_do_ar (janela ''100'')) = ''0,00''
   \<and> lbl_data_cotacao (converter_moeda exato servico_fora_do_ar (janela ''100'')) = RodapeInicial"
proof -
  have m: "message_boxes (converter_moeda exato servico_fora_do_ar (janela ''100'')) \<noteq> message_boxes (janela ''100'')"
    by (simp add: converter_moeda_def Let_def currentText_janela input_valor_janela str_replace_def
          converter_corpo_def exato_def exato_of_str_100 obter_cotacao_fora_do_ar tratar_excecao_def
          show_dialog_def logging_def)
  from falha_preserva_rotulos [OF m] m show ?thesis
    by (simp add: janela_def setup_ui_def)
qed

text \<open>
  Claim C10. For two strings of digits \<open>d1\<close> and \<open>d2\<close>, the text handed to \<open>float\<close> for
  the amount \<open>d1,d2\<close> is \<open>d1.d2\<close>, and the conversion of \<open>d1,d2\<close> does to the window, the
  log and the network exactly what the conversion of \<open>d1.d2\<close> does; only the text left
  in the amount field tells the two windows apart.
\<close>

theorem virgula_decimal:
  assumes "list_all is_digit d1" and "list_all is_digit d2"
  shows "str_replace (CHR '','') (CHR ''.'') (d1 @ '','' @ d2) = d1 @ ''.'' @ d2
         \<and> converter_moeda F T (st\<lparr>input_valor := d1 @ '','' @ d2\<rparr>) =
             (converter_moeda F T (st\<lparr>input_valor := d1 @ ''.'' @ d2\<rparr>))\<lparr>input_valor := d1 @ '','' @ d2\<rparr>"
proof -
  have r: "str_replace (CHR '','') (CHR ''.'') (d1 @ '','' @ d2) = d1 @ ''.'' @ d2"
    using assms by (simp add: str_replace_append str_replace_Cons str_replace_digits)
  have r': "str_replace (CHR '','') (CHR ''.'') (d1 @ ''.'' @ d2) = d1 @ ''.'' @ d2"
    using assms by (simp add: str_replace_append str_replace_Cons str_replace_digits)
  from converter_moeda_input_valor [of "d1 @ '','' @ d2" "d1 @ ''.'' @ d2" F T st] r r'
  show ?thesis by simp
qed

text \<open>The amount \<open>2,5\<close> is read as 2.5 and, at the bid \<open>5.00\<close>, shown as \<open>12,50\<close>.\<close>

theorem virgula_decimal_witness:
  "list_all is_digit ''2'' \<and> list_all is_digit ''5''
   \<and> str_replace (CHR '','') (CHR ''.'') ''2,5'' = ''2.5''
   \<and> float_of_str exato ''2.5'' = Inr (Finite (5 / 2))
   \<and> lbl_resultado (converter_moeda exato servico_usdbrl (janela ''2,5'')) =
       lbl_resultado (converter_moeda exato servico_usdbrl (janela ''2.5''))
   \<and> lbl_resultado (converter_moeda exato servico_usdbrl (janela ''2,5'')) = ''12,50''"
proof -
  have d: "list_all is_digit ''2''" "list_all is_digit ''5''"
    by (simp_all add: is_digit_def)
  have j: "(janela [])\<lparr>input_valor := texto\<rparr> = janela texto" for texto
    by (simp add: janela_def)
  have p: "float_of_str exato ''2.5'' = Inr (Finite (5 / 2))"
    by (simp add: exato_def exato_of_str_2p5)
  have m: "float_mul exato (Finite (5 / 2)) (Finite 5) = Finite (25 / 2)"
    by (simp add: exato_def exato_mul_def)
  have r: "lbl_resultado (converter_moeda exato servico_usdbrl (janela ''2.5'')) = ''12,50''"
    using converter_moeda_usdbrl [of "''2.5''" "Finite (5 / 2)"] p
    by (simp add: str_replace_def m inverte_two_decimals two_decimals_12p5 logging_def)
  from virgula_decimal [OF d, of exato servico_usdbrl "janela []"] d p r show ?thesis
    by (simp add: j)
qed

section \<open>Reading the configuration\<close>




end
